theory Spec2Isabelle
  imports Main
begin

section \<open>The abstract models of apps/common/models.py\<close>

text \<open>
  A primary key is a UUID (\<open>uuid.uuid4\<close>), a 128-bit value the database compares as an
  unsigned number; a timestamp is a point on the clock read by \<open>timezone.now()\<close>. Both
  are supplied by the environment, so every operation that draws one takes it as an argument.
\<close>

type_synonym uuid = nat
type_synonym time = nat

text \<open>
  A concrete model derives either \<open>BaseModel\<close> directly or \<open>IsDeletedModel\<close>. The class it
  derives decides its manager, its default ordering and what \<open>delete()\<close> does.
\<close>

datatype model_kind = BaseModel | IsDeletedModel

text \<open>
  The columns of \<open>BaseModel\<close> followed by the two columns \<open>IsDeletedModel\<close> adds. A model
  that derives \<open>BaseModel\<close> directly has no soft-delete columns: in its rows they stay at
  their defaults and nothing reads them. The field \<open>id\<close> is named \<open>id_pk\<close> here.
\<close>

record row =
  id_pk :: uuid
  created_at :: time
  updated_at :: time
  is_deleted :: bool
  deleted_at :: "time option"

datatype error =
    DoesNotExist
  | MultipleObjectsReturned
  | IntegrityError
  | DatabaseError
  | UnboundLocalError
  | AttributeError

subsection \<open>Managers and querysets\<close>

text \<open>
  A queryset is lazy: it is the condition of its WHERE clause, and it reads the table only
  when it is evaluated, updated or deleted. \<open>get_queryset\<close> is the queryset a manager
  starts from: \<open>IsDeletedManager.get_queryset\<close> filters \<open>is_deleted=False\<close>, the manager of
  a plain \<open>BaseModel\<close> filters nothing.
\<close>

definition get_queryset :: "model_kind \<Rightarrow> 'a row_scheme \<Rightarrow> bool" where
  "get_queryset k r = (case k of BaseModel \<Rightarrow> True | IsDeletedModel \<Rightarrow> \<not> is_deleted r)"

definition unfiltered :: "'a row_scheme \<Rightarrow> bool" where
  "unfiltered r = True"

definition qs_filter ::
  "('a row_scheme \<Rightarrow> bool) \<Rightarrow> ('a row_scheme \<Rightarrow> bool) \<Rightarrow> 'a row_scheme \<Rightarrow> bool" where
  "qs_filter q P r = (q r \<and> P r)"

text \<open>
  \<open>Meta.ordering = ['-id']\<close> of \<open>IsDeletedModel\<close>: descending primary key. \<open>BaseModel.Meta\<close>
  sets no ordering; its rows come in the order the table holds them.
\<close>

definition ordering :: "model_kind \<Rightarrow> 'a row_scheme list \<Rightarrow> 'a row_scheme list" where
  "ordering k rows = (case k of BaseModel \<Rightarrow> rows | IsDeletedModel \<Rightarrow> rev (sort_key id_pk rows))"

text \<open>Evaluating a queryset: the selected rows, in the model's default ordering.\<close>

definition qs_rows ::
  "model_kind \<Rightarrow> ('a row_scheme \<Rightarrow> bool) \<Rightarrow> 'a row_scheme list \<Rightarrow> 'a row_scheme list" where
  "qs_rows k q tbl = ordering k (filter q tbl)"

definition qs_exists :: "('a row_scheme \<Rightarrow> bool) \<Rightarrow> 'a row_scheme list \<Rightarrow> bool" where
  "qs_exists q tbl = (filter q tbl \<noteq> [])"

text \<open>\<open>QuerySet.update\<close>: one UPDATE statement; it sets the given columns and no other.\<close>

definition qs_update ::
  "('a row_scheme \<Rightarrow> bool) \<Rightarrow> ('a row_scheme \<Rightarrow> 'a row_scheme) \<Rightarrow> 'a row_scheme list
    \<Rightarrow> 'a row_scheme list" where
  "qs_update q f tbl = map (\<lambda>r. if q r then f r else r) tbl"

text \<open>\<open>QuerySet.delete\<close> of Django: the selected rows leave the table.\<close>

definition qs_delete :: "('a row_scheme \<Rightarrow> bool) \<Rightarrow> 'a row_scheme list \<Rightarrow> 'a row_scheme list" where
  "qs_delete q tbl = filter (\<lambda>r. \<not> q r) tbl"

text \<open>\<open>IsDeletedQuerySet.delete(hard_delete=False)\<close>.\<close>

definition IsDeletedQuerySet_delete ::
  "bool \<Rightarrow> time \<Rightarrow> ('a row_scheme \<Rightarrow> bool) \<Rightarrow> 'a row_scheme list \<Rightarrow> 'a row_scheme list" where
  "IsDeletedQuerySet_delete hard_delete now q tbl =
     (if hard_delete then qs_delete q tbl
      else qs_update q (\<lambda>r. r\<lparr>is_deleted := True, deleted_at := Some now\<rparr>) tbl)"

text \<open>\<open>IsDeletedManager.hard_delete\<close>.\<close>

definition IsDeletedManager_hard_delete :: "time \<Rightarrow> 'a row_scheme list \<Rightarrow> 'a row_scheme list" where
  "IsDeletedManager_hard_delete now tbl = IsDeletedQuerySet_delete True now unfiltered tbl"

text \<open>
  \<open>delete()\<close> on a queryset of a model of kind \<open>k\<close>: the queryset of a plain \<open>BaseModel\<close>
  inherits Django's \<open>delete\<close>, the one of an \<open>IsDeletedModel\<close> is an \<open>IsDeletedQuerySet\<close>
  called with the default \<open>hard_delete=False\<close>.
\<close>

definition queryset_delete ::
  "model_kind \<Rightarrow> time \<Rightarrow> ('a row_scheme \<Rightarrow> bool) \<Rightarrow> 'a row_scheme list \<Rightarrow> 'a row_scheme list" where
  "queryset_delete k now q tbl =
     (case k of BaseModel \<Rightarrow> qs_delete q tbl
      | IsDeletedModel \<Rightarrow> IsDeletedQuerySet_delete False now q tbl)"

subsection \<open>Saving and deleting one instance\<close>

text \<open>An INSERT of one row: a primary key already in the table is refused.\<close>

definition insert_row :: "'a row_scheme \<Rightarrow> 'a row_scheme list \<Rightarrow> error + 'a row_scheme list" where
  "insert_row obj tbl =
     (if id_pk obj \<in> set (map id_pk tbl) then Inl IntegrityError else Inr (tbl @ [obj]))"

text \<open>
  \<open>self.save(update_fields=[...])\<close>. The flag \<open>adding\<close> is \<open>self._state.adding\<close>: true for an
  instance built in memory and never saved, false for one loaded from or saved to the
  database.

  For an instance that is not being added, the call writes the named columns of the
  in-memory instance into the row with its primary key and leaves every other column of
  that row as the table has it; \<open>auto_now\<close> refreshes \<open>updated_at\<close> only when that column
  is named. When no row has the key, Django raises \<open>DatabaseError\<close>.

  For an instance that is being added, the primary key has a default (\<open>uuid.uuid4\<close>), so
  Django skips the UPDATE and INSERTs the whole row, every column of the instance, with
  \<open>created_at\<close> (\<open>auto_now_add\<close>) and \<open>updated_at\<close> (\<open>auto_now\<close>) set to the current time.
\<close>

datatype column = Col_created_at | Col_updated_at | Col_is_deleted | Col_deleted_at

fun write_col :: "'a row_scheme \<Rightarrow> time \<Rightarrow> column \<Rightarrow> 'a row_scheme \<Rightarrow> 'a row_scheme" where
  "write_col self now Col_created_at r = r\<lparr>created_at := created_at self\<rparr>"
| "write_col self now Col_updated_at r = r\<lparr>updated_at := now\<rparr>"
| "write_col self now Col_is_deleted r = r\<lparr>is_deleted := is_deleted self\<rparr>"
| "write_col self now Col_deleted_at r = r\<lparr>deleted_at := deleted_at self\<rparr>"

definition save_update_fields ::
  "column list \<Rightarrow> time \<Rightarrow> bool \<Rightarrow> 'a row_scheme \<Rightarrow> 'a row_scheme list
    \<Rightarrow> error + 'a row_scheme list" where
  "save_update_fields cols now adding self tbl =
     (if adding
      then insert_row (self\<lparr>created_at := now, updated_at := now\<rparr>) tbl
      else if \<exists>r \<in> set tbl. id_pk r = id_pk self
      then Inr (map (\<lambda>r. if id_pk r = id_pk self then fold (write_col self now) cols r else r) tbl)
      else Inl DatabaseError)"

text \<open>
  \<open>IsDeletedModel.delete\<close>: it takes no \<open>hard\<close> argument and always deletes softly. \<open>adding\<close>
  is the \<open>_state.adding\<close> of the instance it is called on.
\<close>

definition IsDeletedModel_delete ::
  "time \<Rightarrow> bool \<Rightarrow> 'a row_scheme \<Rightarrow> 'a row_scheme list \<Rightarrow> error + 'a row_scheme list" where
  "IsDeletedModel_delete now adding self tbl =
     (let self1 = self\<lparr>is_deleted := True\<rparr>;
          self2 = self1\<lparr>deleted_at := Some now\<rparr>
      in save_update_fields [Col_is_deleted, Col_deleted_at] now adding self2 tbl)"

text \<open>\<open>Model.delete\<close> of Django, reached through \<open>super().delete\<close>: the row leaves the table.\<close>

definition Model_delete :: "'a row_scheme \<Rightarrow> 'a row_scheme list \<Rightarrow> 'a row_scheme list" where
  "Model_delete self tbl = filter (\<lambda>r. id_pk r \<noteq> id_pk self) tbl"

definition IsDeletedModel_hard_delete :: "'a row_scheme \<Rightarrow> 'a row_scheme list \<Rightarrow> 'a row_scheme list" where
  "IsDeletedModel_hard_delete self tbl = Model_delete self tbl"

text \<open>\<open>instance.delete()\<close> for a model of kind \<open>k\<close>.\<close>

definition instance_delete ::
  "model_kind \<Rightarrow> time \<Rightarrow> bool \<Rightarrow> 'a row_scheme \<Rightarrow> 'a row_scheme list
    \<Rightarrow> error + 'a row_scheme list" where
  "instance_delete k now adding self tbl =
     (case k of BaseModel \<Rightarrow> Inr (Model_delete self tbl)
      | IsDeletedModel \<Rightarrow> IsDeletedModel_delete now adding self tbl)"


subsection \<open>Lookups and upserts\<close>

text \<open>\<open>Manager.get\<close>: the one selected row, or an exception when there is none or several.\<close>

definition get ::
  "model_kind \<Rightarrow> ('a row_scheme \<Rightarrow> bool) \<Rightarrow> 'a row_scheme list \<Rightarrow> error + 'a row_scheme" where
  "get k P tbl =
     (case filter (qs_filter (get_queryset k) P) tbl of
        [] \<Rightarrow> Inl DoesNotExist
      | [r] \<Rightarrow> Inr r
      | r # r' # rs \<Rightarrow> Inl MultipleObjectsReturned)"

text \<open>
  Modelled from the spec: \<open>get_or_none\<close> of apps/common/managers.py, which is not among the
  sources. It returns the matching entity or the "not found" sentinel \<open>None\<close>, and never
  raises for absence; any other exception of the strict lookup passes through.
\<close>

definition get_or_none ::
  "model_kind \<Rightarrow> ('a row_scheme \<Rightarrow> bool) \<Rightarrow> 'a row_scheme list \<Rightarrow> error + 'a row_scheme option" where
  "get_or_none k P tbl =
     (case get k P tbl of
        Inl DoesNotExist \<Rightarrow> Inr None
      | Inl e \<Rightarrow> Inl e
      | Inr r \<Rightarrow> Inr (Some r))"

text \<open>\<open>Manager.create\<close>: the row built from the keyword arguments is INSERTed.\<close>

definition create :: "'a row_scheme \<Rightarrow> 'a row_scheme list \<Rightarrow> error + 'a row_scheme list" where
  "create obj tbl = insert_row obj tbl"

text \<open>
  \<open>Manager.update_or_create(**lookup, defaults=...)\<close>: \<open>get\<close> with the lookup; a row found
  gets the defaults assigned and is saved (which refreshes \<open>updated_at\<close>), a row not found
  is created from lookup and defaults. The result is the object and the flag \<open>created\<close>.
\<close>

definition update_or_create ::
  "model_kind \<Rightarrow> ('a row_scheme \<Rightarrow> bool) \<Rightarrow> ('a row_scheme \<Rightarrow> 'a row_scheme) \<Rightarrow> 'a row_scheme
    \<Rightarrow> time \<Rightarrow> 'a row_scheme list \<Rightarrow> error + (('a row_scheme \<times> bool) \<times> 'a row_scheme list)" where
  "update_or_create k P set_defaults new now tbl =
     (case get k P tbl of
        Inr obj \<Rightarrow>
          (let obj' = (set_defaults obj)\<lparr>updated_at := now\<rparr>
           in Inr ((obj', False), map (\<lambda>r. if id_pk r = id_pk obj then obj' else r) tbl))
      | Inl DoesNotExist \<Rightarrow>
          (case create new tbl of
             Inl e \<Rightarrow> Inl e
           | Inr tbl' \<Rightarrow> Inr ((new, True), tbl'))
      | Inl e \<Rightarrow> Inl e)"

section \<open>The models the views of apps/shop/views.py work on\<close>

text \<open>
  The model classes live in apps/shop/models.py and apps/profiles/models.py, which are not
  among the sources. The columns below are the ones the views read and write.
\<close>

type_synonym account = nat

record Product = row +
  slug :: string

record ShippingAddress = row +
  full_name :: string
  email :: string
  phone :: string
  address :: string
  city :: string
  country :: string
  zipcode :: string

record Order = row +
  user :: account
  full_name :: string
  email :: string
  phone :: string
  address :: string
  city :: string
  country :: string
  zipcode :: string

record OrderItem = row +
  user :: account
  order_id :: "uuid option"
  product :: uuid
  quantity :: int

record Review = row +
  user :: account
  product :: uuid
  rating :: int
  review_text :: string

record store =
  products :: "Product list"
  shipping_addresses :: "ShippingAddress list"
  orders :: "Order list"
  orderitems :: "OrderItem list"
  reviews :: "Review list"


text \<open>
  A DRF \<open>Response\<close>: the message of its body when it has one (\<open>"message"\<close>, or \<open>"error"\<close> in
  the review view), the serialized object when it has one, and the HTTP status. A view
  either returns a response or raises; both come with the store the call leaves behind.
\<close>

datatype 'a response = Response (message: "string option") (item: "'a option") (status: nat)

type_synonym 'a outcome = "(error + 'a response) \<times> store"

text \<open>
  Modelled from the spec: the class \<open>OrderItem\<close> of apps/profiles/models.py is not among the
  sources. By section 4.2 its rows are transient cart state and deleting one is a hard
  delete, so the class derives \<open>BaseModel\<close> directly and inherits Django's \<open>delete\<close>.
\<close>

definition OrderItem_kind :: model_kind where
  "OrderItem_kind = BaseModel"

subsection \<open>\<open>CartView.post\<close>\<close>

text \<open>The lookup of \<open>update_or_create(user=user, order_id=None, product=product, ...)\<close>.\<close>

definition cart_key :: "account \<Rightarrow> uuid \<Rightarrow> OrderItem \<Rightarrow> bool" where
  "cart_key u p i = (OrderItem.user i = u \<and> order_id i = None \<and> OrderItem.product i = p)"

text \<open>
  The first half of the view, up to and including the upsert: resolve the product by
  slug, then \<open>update_or_create\<close> the cart row with \<open>defaults={"quantity": quantity}\<close>.
  The request data is the validated data of \<open>ToggleCartItemSerializer\<close>.
\<close>

definition CartView_post_upsert ::
  "model_kind \<Rightarrow> account \<Rightarrow> string \<Rightarrow> int \<Rightarrow> uuid \<Rightarrow> time \<Rightarrow> store
    \<Rightarrow> error + ((OrderItem \<times> bool) \<times> store) option" where
  "CartView_post_upsert pk u slug' quantity' new_id now st =
     (case get_or_none pk (\<lambda>p. slug p = slug') (products st) of
        Inl e \<Rightarrow> Inl e
      | Inr None \<Rightarrow> Inr None
      | Inr (Some product') \<Rightarrow>
          (case update_or_create OrderItem_kind (cart_key u (id_pk product'))
                  (\<lambda>i. i\<lparr>quantity := quantity'\<rparr>)
                  \<lparr>id_pk = new_id, created_at = now, updated_at = now,
                    is_deleted = False, deleted_at = None,
                    OrderItem.user = u, order_id = None, OrderItem.product = id_pk product',
                    quantity = quantity'\<rparr>
                  now (orderitems st) of
             Inl e \<Rightarrow> Inl e
           | Inr (oc, tbl) \<Rightarrow> Inr (Some (oc, st\<lparr>orderitems := tbl\<rparr>))))"

text \<open>
  The second half: choose the message and the status, delete the row when its quantity
  is 0, and serialize it otherwise. The object came out of \<open>update_or_create\<close>, which has
  fetched or saved it, so it is not being added.
\<close>

definition CartView_post_respond :: "OrderItem \<Rightarrow> bool \<Rightarrow> time \<Rightarrow> store \<Rightarrow> OrderItem outcome" where
  "CartView_post_respond orderitem created now st =
     (let (substring0, status0) = (''Updated In'', 200);
          (substring1, status1) = (if created then (''Added To'', 201) else (substring0, status0))
      in if quantity orderitem = 0
         then (case instance_delete OrderItem_kind now False orderitem (orderitems st) of
                 Inl e \<Rightarrow> (Inl e, st)
               | Inr tbl \<Rightarrow>
                   (let substring2 = ''Removed From'';
                        data = (if substring2 \<noteq> ''Removed From'' then Some orderitem else None)
                    in (Inr (Response (Some (''Item '' @ substring2 @ '' Cart'')) data status1),
                        st\<lparr>orderitems := tbl\<rparr>)))
         else (let data = (if substring1 \<noteq> ''Removed From'' then Some orderitem else None)
               in (Inr (Response (Some (''Item '' @ substring1 @ '' Cart'')) data status1), st)))"

definition CartView_post ::
  "model_kind \<Rightarrow> account \<Rightarrow> string \<Rightarrow> int \<Rightarrow> uuid \<Rightarrow> time \<Rightarrow> store \<Rightarrow> OrderItem outcome" where
  "CartView_post pk u slug' quantity' new_id now st =
     (case CartView_post_upsert pk u slug' quantity' new_id now st of
        Inl e \<Rightarrow> (Inl e, st)
      | Inr None \<Rightarrow> (Inr (Response (Some ''No Product with that slug'') None 404), st)
      | Inr (Some ((orderitem, created), st1)) \<Rightarrow> CartView_post_respond orderitem created now st1)"

subsection \<open>\<open>CheckoutView.post\<close>\<close>

text \<open>A local variable of the view: the name may never have been assigned.\<close>

datatype 'a local_var = Unbound | Bound 'a

text \<open>The queryset \<open>OrderItem.objects.filter(user=user, order=None)\<close>.\<close>

definition cart_of :: "account \<Rightarrow> OrderItem \<Rightarrow> bool" where
  "cart_of u = qs_filter (get_queryset OrderItem_kind) (\<lambda>i. OrderItem.user i = u \<and> order_id i = None)"

definition fields_to_update :: "string list" where
  "fields_to_update =
     [''full_name'', ''email'', ''phone'', ''address'', ''city'', ''country'', ''zipcode'']"

text \<open>\<open>getattr(shipping, field)\<close>: reading an unassigned local raises \<open>UnboundLocalError\<close>.\<close>

definition getattr_shipping :: "ShippingAddress local_var \<Rightarrow> string \<Rightarrow> error + string" where
  "getattr_shipping shipping field =
     (case shipping of
        Unbound \<Rightarrow> Inl UnboundLocalError
      | Bound a \<Rightarrow>
          (if field = ''full_name'' then Inr (ShippingAddress.full_name a)
           else if field = ''email'' then Inr (ShippingAddress.email a)
           else if field = ''phone'' then Inr (ShippingAddress.phone a)
           else if field = ''address'' then Inr (ShippingAddress.address a)
           else if field = ''city'' then Inr (ShippingAddress.city a)
           else if field = ''country'' then Inr (ShippingAddress.country a)
           else if field = ''zipcode'' then Inr (ShippingAddress.zipcode a)
           else Inl AttributeError))"

text \<open>The loop \<open>for field in fields_to_update: data[field] = getattr(shipping, field)\<close>.\<close>

fun collect_fields ::
  "ShippingAddress local_var \<Rightarrow> string list \<Rightarrow> (string \<rightharpoonup> string) \<Rightarrow> error + (string \<rightharpoonup> string)" where
  "collect_fields shipping [] data = Inr data"
| "collect_fields shipping (field # rest) data =
     (case getattr_shipping shipping field of
        Inl e \<Rightarrow> Inl e
      | Inr v \<Rightarrow> collect_fields shipping rest (data(field \<mapsto> v)))"

text \<open>
  The row \<open>Order.objects.create(user=user, **data)\<close> inserts: a column without a keyword
  argument is left empty.
\<close>

definition kwarg :: "(string \<rightharpoonup> string) \<Rightarrow> string \<Rightarrow> string" where
  "kwarg data field = (case data field of None \<Rightarrow> [] | Some v \<Rightarrow> v)"

definition new_Order :: "account \<Rightarrow> (string \<rightharpoonup> string) \<Rightarrow> uuid \<Rightarrow> time \<Rightarrow> Order" where
  "new_Order u data new_id now =
     \<lparr>id_pk = new_id, created_at = now, updated_at = now, is_deleted = False, deleted_at = None,
       Order.user = u,
       Order.full_name = kwarg data ''full_name'', Order.email = kwarg data ''email'',
       Order.phone = kwarg data ''phone'', Order.address = kwarg data ''address'',
       Order.city = kwarg data ''city'', Order.country = kwarg data ''country'',
       Order.zipcode = kwarg data ''zipcode''\<rparr>"

text \<open>From \<open>fields_to_update\<close> to the end of the view.\<close>

definition CheckoutView_post_order ::
  "account \<Rightarrow> ShippingAddress local_var \<Rightarrow> uuid \<Rightarrow> time \<Rightarrow> store \<Rightarrow> Order outcome" where
  "CheckoutView_post_order u shipping new_id now st =
     (case collect_fields shipping fields_to_update Map.empty of
        Inl e \<Rightarrow> (Inl e, st)
      | Inr data \<Rightarrow>
          (let order' = new_Order u data new_id now
           in case create order' (orders st) of
                Inl e \<Rightarrow> (Inl e, st)
              | Inr tbl \<Rightarrow>
                  (let st1 = st\<lparr>orders := tbl\<rparr>;
                       st2 = st1\<lparr>orderitems :=
                               qs_update (cart_of u) (\<lambda>i. i\<lparr>order_id := Some (id_pk order')\<rparr>)
                                 (orderitems st1)\<rparr>
                   in (Inr (Response (Some ''Checkout Successful'') (Some order') 200), st2))))"

text \<open>
  The view. \<open>shipping_id\<close> is \<open>data.get("shipping_id")\<close> of the validated data: \<open>None\<close> when
  the data has no such key; a UUID is always truthy.
\<close>

definition CheckoutView_post ::
  "model_kind \<Rightarrow> account \<Rightarrow> uuid option \<Rightarrow> uuid \<Rightarrow> time \<Rightarrow> store \<Rightarrow> Order outcome" where
  "CheckoutView_post sk u shipping_id new_id now st =
     (if \<not> qs_exists (cart_of u) (orderitems st)
      then (Inr (Response (Some ''No Items in Cart'') None 404), st)
      else (case shipping_id of
              None \<Rightarrow> CheckoutView_post_order u Unbound new_id now st
            | Some sid \<Rightarrow>
                (case get_or_none sk (\<lambda>a. id_pk a = sid) (shipping_addresses st) of
                   Inl e \<Rightarrow> (Inl e, st)
                 | Inr None \<Rightarrow>
                     (Inr (Response (Some ''No shipping address with that ID'') None 404), st)
                 | Inr (Some a) \<Rightarrow> CheckoutView_post_order u (Bound a) new_id now st)))"

subsection \<open>\<open>ReviewViewsPost.post\<close> and \<open>ReviewViewsDelete.delete\<close>\<close>

definition review_key :: "account \<Rightarrow> uuid \<Rightarrow> Review \<Rightarrow> bool" where
  "review_key u p r = (Review.user r = u \<and> Review.product r = p)"

text \<open>
  \<open>pk\<close> and \<open>rk\<close> are the kinds of the classes \<open>Product\<close> and \<open>Review\<close>. The request data has
  passed \<open>ReviewSerializer\<close>.
\<close>

definition ReviewViewsPost_post ::
  "model_kind \<Rightarrow> model_kind \<Rightarrow> account \<Rightarrow> uuid \<Rightarrow> int \<Rightarrow> string \<Rightarrow> uuid \<Rightarrow> time \<Rightarrow> store
    \<Rightarrow> Review outcome" where
  "ReviewViewsPost_post pk rk u product_id rating' text' new_id now st =
     (case get pk (\<lambda>p. id_pk p = product_id) (products st) of
        Inl DoesNotExist \<Rightarrow> (Inr (Response (Some ''Product not found'') None 404), st)
      | Inl e \<Rightarrow> (Inl e, st)
      | Inr product' \<Rightarrow>
          (case update_or_create rk (review_key u (id_pk product'))
                  (\<lambda>r. r\<lparr>rating := rating', review_text := text'\<rparr>)
                  \<lparr>id_pk = new_id, created_at = now, updated_at = now,
                    is_deleted = False, deleted_at = None,
                    Review.user = u, Review.product = id_pk product',
                    rating = rating', review_text = text'\<rparr>
                  now (reviews st) of
             Inl e \<Rightarrow> (Inl e, st)
           | Inr ((review, created), tbl) \<Rightarrow>
               (if created
                then (Inr (Response None (Some review) 201), st\<lparr>reviews := tbl\<rparr>)
                else (Inr (Response None (Some review) 200), st\<lparr>reviews := tbl\<rparr>))))"

text \<open>
  In \<open>ReviewViewsDelete.delete\<close> the name \<open>product\<close> is the module-level import
  \<open>from itertools import product\<close>: a class, which is truthy, so \<open>if not product\<close> never
  takes its branch.
\<close>

definition itertools_product_truthy :: bool where
  "itertools_product_truthy = True"

definition ReviewViewsDelete_delete ::
  "model_kind \<Rightarrow> account \<Rightarrow> uuid \<Rightarrow> time \<Rightarrow> store \<Rightarrow> Review outcome" where
  "ReviewViewsDelete_delete rk u review_id now st =
     (let reviews' = qs_filter (get_queryset rk) (\<lambda>r. id_pk r = review_id \<and> Review.user r = u)
      in if \<not> itertools_product_truthy
         then (Inr (Response (Some ''Product does not exists!'') None 404), st)
         else (Inr (Response (Some ''Product deleted successfully'') None 200),
               st\<lparr>reviews := queryset_delete rk now reviews' (reviews st)\<rparr>))"


section \<open>Notions the properties are stated with\<close>

text \<open>
  Row \<open>r'\<close> is row \<open>r\<close> soft-deleted at time \<open>now\<close>: the columns \<open>is_deleted\<close> and
  \<open>deleted_at\<close> are set, every other column, those of the concrete model included, is
  the same.
\<close>

definition only_soft_delete_columns :: "time \<Rightarrow> 'a row_scheme \<Rightarrow> 'a row_scheme \<Rightarrow> bool" where
  "only_soft_delete_columns now r r' =
     (is_deleted r' \<and> deleted_at r' = Some now \<and> id_pk r' = id_pk r \<and>
      created_at r' = created_at r \<and> updated_at r' = updated_at r \<and> row.more r' = row.more r)"

subsection \<open>Sample data\<close>

text \<open>
  A table of two rows of an abstract model, the second created later and holding the
  smaller key, an in-memory instance of that row read before its last update, and an
  instance with a key of its own that was never saved.
\<close>

definition sample_row :: row where
  "sample_row = \<lparr>id_pk = 3, created_at = 2, updated_at = 2, is_deleted = False, deleted_at = None\<rparr>"

definition sample_stale :: row where
  "sample_stale = \<lparr>id_pk = 3, created_at = 2, updated_at = 1, is_deleted = False, deleted_at = None\<rparr>"

definition sample_unsaved :: row where
  "sample_unsaved = \<lparr>id_pk = 9, created_at = 0, updated_at = 0, is_deleted = False, deleted_at = None\<rparr>"

definition sample_rows :: "row list" where
  "sample_rows =
     [\<lparr>id_pk = 7, created_at = 1, updated_at = 1, is_deleted = False, deleted_at = None\<rparr>,
      sample_row]"

text \<open>
  A store with one product, one shipping address, one cart row of user 1 and one review
  of user 1.
\<close>

definition sample_product :: Product where
  "sample_product =
     \<lparr>id_pk = 2, created_at = 1, updated_at = 1, is_deleted = False, deleted_at = None,
       slug = ''mug''\<rparr>"

definition sample_address :: ShippingAddress where
  "sample_address =
     \<lparr>id_pk = 6, created_at = 1, updated_at = 1, is_deleted = False, deleted_at = None,
       ShippingAddress.full_name = ''Ada Lovelace'', ShippingAddress.email = ''ada@example.org'',
       ShippingAddress.phone = ''555'', ShippingAddress.address = ''12 St James Square'',
       ShippingAddress.city = ''London'', ShippingAddress.country = ''UK'',
       ShippingAddress.zipcode = ''SW1''\<rparr>"

definition sample_item :: OrderItem where
  "sample_item =
     \<lparr>id_pk = 8, created_at = 1, updated_at = 1, is_deleted = False, deleted_at = None,
       OrderItem.user = 1, order_id = None, OrderItem.product = 2, quantity = 4\<rparr>"

definition sample_review :: Review where
  "sample_review =
     \<lparr>id_pk = 4, created_at = 1, updated_at = 1, is_deleted = False, deleted_at = None,
       Review.user = 1, Review.product = 2, rating = 5, review_text = ''good''\<rparr>"

definition sample_store :: store where
  "sample_store =
     \<lparr>products = [sample_product], shipping_addresses = [sample_address], orders = [],
       orderitems = [sample_item], reviews = [sample_review]\<rparr>"

section \<open>Helper facts\<close>

lemma notin_imageD: "f a \<notin> f ` set xs \<Longrightarrow> \<forall>x \<in> set xs. f x \<noteq> f a"
  by (metis imageI)

lemma distinct_map_ConsD:
  assumes "distinct (map f (x # xs))" shows "\<forall>y \<in> set xs. f y \<noteq> f x"
proof -
  have "f x \<notin> f ` set xs" using assms by simp
  then show ?thesis by (rule notin_imageD)
qed

lemma same_key_same_row:
  assumes "distinct (map id_pk tbl)" and "r \<in> set tbl" and "x \<in> set tbl" and "id_pk x = id_pk r"
  shows "x = r"
  using assms by (meson distinct_map inj_onD)

lemma filter_singletonD:
  assumes "filter Q xs = [r]" shows "r \<in> set xs \<and> Q r"
proof -
  have "r \<in> set (filter Q xs)" using assms by simp
  then show ?thesis by simp
qed

lemma set_qs_rows: "set (qs_rows k q tbl) = {r \<in> set tbl. q r}"
  by (cases k) (auto simp: qs_rows_def ordering_def)

lemma IsDeletedModel_delete_eq:
  "IsDeletedModel_delete now False self tbl =
     (if \<exists>r \<in> set tbl. id_pk r = id_pk self
      then Inr (map (\<lambda>r. if id_pk r = id_pk self
                          then r\<lparr>is_deleted := True, deleted_at := Some now\<rparr> else r) tbl)
      else Inl DatabaseError)"
  by (simp add: IsDeletedModel_delete_def save_update_fields_def Let_def)

lemma IsDeletedModel_delete_adding:
  "IsDeletedModel_delete now True self tbl =
     (if id_pk self \<in> id_pk ` set tbl then Inl IntegrityError
      else Inr (tbl @ [self\<lparr>created_at := now, updated_at := now,
                            is_deleted := True, deleted_at := Some now\<rparr>]))"
  by (simp add: IsDeletedModel_delete_def save_update_fields_def insert_row_def Let_def)

lemma only_soft_delete_columns_update:
  "only_soft_delete_columns now r (r\<lparr>is_deleted := True, deleted_at := Some now\<rparr>)"
  by (simp add: only_soft_delete_columns_def)

lemma qs_update_none: "\<forall>r \<in> set tbl. \<not> q r \<Longrightarrow> qs_update q f tbl = tbl"
  by (simp add: qs_update_def map_idI)

lemma qs_delete_none: "\<forall>r \<in> set tbl. \<not> q r \<Longrightarrow> qs_delete q tbl = tbl"
  by (simp add: qs_delete_def)

lemma queryset_delete_none: "\<forall>r \<in> set tbl. \<not> q r \<Longrightarrow> queryset_delete k now q tbl = tbl"
  by (cases k)
    (simp_all add: queryset_delete_def IsDeletedQuerySet_delete_def qs_update_none qs_delete_none)

lemma queryset_delete_keeps:
  "r \<in> set tbl \<Longrightarrow> \<not> q r \<Longrightarrow> r \<in> set (queryset_delete k now q tbl)"
  by (cases k)
    (auto simp: queryset_delete_def IsDeletedQuerySet_delete_def qs_update_def qs_delete_def)

lemma get_Inr_iff: "get k P tbl = Inr r \<longleftrightarrow> filter (qs_filter (get_queryset k) P) tbl = [r]"
  by (auto simp: get_def split: list.splits)

lemma get_InrD: "get k P tbl = Inr r \<Longrightarrow> r \<in> set tbl \<and> get_queryset k r \<and> P r"
  by (auto simp: get_Inr_iff qs_filter_def dest: filter_singletonD)

lemma update_or_create_absent:
  assumes "filter (qs_filter (get_queryset k) P) tbl = []" and "id_pk new \<notin> id_pk ` set tbl"
  shows "update_or_create k P f new now tbl = Inr ((new, True), tbl @ [new])"
  using assms by (simp add: update_or_create_def get_def create_def insert_row_def)

lemma update_or_create_present:
  assumes "filter (qs_filter (get_queryset k) P) tbl = [obj]"
  shows "update_or_create k P f new now tbl =
           Inr (((f obj)\<lparr>updated_at := now\<rparr>, False),
                map (\<lambda>r. if id_pk r = id_pk obj then (f obj)\<lparr>updated_at := now\<rparr> else r) tbl)"
  using assms by (simp add: update_or_create_def get_def Let_def)

lemma map_replace_last:
  assumes "id_pk new \<notin> id_pk ` set tbl"
  shows "map (\<lambda>r. if id_pk r = id_pk new then new' else r) (tbl @ [new]) = tbl @ [new']"
proof -
  have "\<forall>x \<in> set tbl. id_pk x \<noteq> id_pk new" using assms by (rule notin_imageD)
  then have "map (\<lambda>r. if id_pk r = id_pk new then new' else r) tbl = tbl"
    by (intro map_idI) simp
  then show ?thesis by simp
qed

lemma collect_fields_bound:
  "collect_fields (Bound a) fields_to_update Map.empty =
     Inr [''full_name'' \<mapsto> ShippingAddress.full_name a, ''email'' \<mapsto> ShippingAddress.email a,
          ''phone'' \<mapsto> ShippingAddress.phone a, ''address'' \<mapsto> ShippingAddress.address a,
          ''city'' \<mapsto> ShippingAddress.city a, ''country'' \<mapsto> ShippingAddress.country a,
          ''zipcode'' \<mapsto> ShippingAddress.zipcode a]"
  by (simp add: fields_to_update_def getattr_shipping_def)

lemma new_Order_fields:
  assumes "collect_fields (Bound a) fields_to_update Map.empty = Inr data"
  shows "new_Order u data new_id now =
     \<lparr>id_pk = new_id, created_at = now, updated_at = now, is_deleted = False, deleted_at = None,
       Order.user = u,
       Order.full_name = ShippingAddress.full_name a, Order.email = ShippingAddress.email a,
       Order.phone = ShippingAddress.phone a, Order.address = ShippingAddress.address a,
       Order.city = ShippingAddress.city a, Order.country = ShippingAddress.country a,
       Order.zipcode = ShippingAddress.zipcode a\<rparr>"
  using assms unfolding collect_fields_bound by (auto simp: new_Order_def kwarg_def)

lemma cart_of_eq: "cart_of u = (\<lambda>i. OrderItem.user i = u \<and> order_id i = None)"
  by (auto simp: cart_of_def qs_filter_def get_queryset_def OrderItem_kind_def)

section \<open>Soft deletion\<close>

text \<open>
  Claim C3. After a soft delete of a persisted entity, by \<open>IsDeletedModel.delete\<close> on the
  instance or by \<open>IsDeletedQuerySet.delete(hard_delete=False)\<close> on a queryset that selects
  it, no query that starts from the default manager returns the entity, whatever further
  filter \<open>P\<close> it applies; the \<open>unfiltered()\<close> queryset still returns it, and there its
  \<open>deleted_at\<close> is set. The entity is the row \<open>r0\<close> of the table, the primary key is unique.
  The same holds after \<open>delete()\<close> on an instance \<open>new\<close> that was never saved, whenever that
  call returns: it returns when the instance's key is free, and raises \<open>IntegrityError\<close>
  when the key is taken.
\<close>

theorem soft_delete_hides_entity:
  assumes "r0 \<in> set tbl" and "id_pk self = id_pk r0" and "q r0" and "distinct (map id_pk tbl)"
  shows "(\<exists>tbl'. IsDeletedModel_delete now False self tbl = Inr tbl'
            \<and> (\<forall>P. \<forall>r \<in> set (qs_rows IsDeletedModel (qs_filter (get_queryset IsDeletedModel) P) tbl').
                   id_pk r \<noteq> id_pk r0)
            \<and> (\<exists>r \<in> set (qs_rows IsDeletedModel unfiltered tbl').
                   id_pk r = id_pk r0 \<and> deleted_at r \<noteq> None))
       \<and> (let tbl' = IsDeletedQuerySet_delete False now q tbl
           in (\<forall>P. \<forall>r \<in> set (qs_rows IsDeletedModel (qs_filter (get_queryset IsDeletedModel) P) tbl').
                   id_pk r \<noteq> id_pk r0)
            \<and> (\<exists>r \<in> set (qs_rows IsDeletedModel unfiltered tbl').
                   id_pk r = id_pk r0 \<and> deleted_at r \<noteq> None))
       \<and> (if id_pk new \<in> id_pk ` set tbl
           then IsDeletedModel_delete now True new tbl = Inl IntegrityError
           else (\<exists>tbl'. IsDeletedModel_delete now True new tbl = Inr tbl'
            \<and> (\<forall>P. \<forall>r \<in> set (qs_rows IsDeletedModel (qs_filter (get_queryset IsDeletedModel) P) tbl').
                   id_pk r \<noteq> id_pk new)
            \<and> (\<exists>r \<in> set (qs_rows IsDeletedModel unfiltered tbl').
                   id_pk r = id_pk new \<and> deleted_at r \<noteq> None)))"
proof -
  have uniq: "\<And>x. x \<in> set tbl \<Longrightarrow> id_pk x = id_pk r0 \<Longrightarrow> x = r0"
    using assms(1,4) same_key_same_row by blast
  let ?d = "\<lambda>r::'a row_scheme. r\<lparr>is_deleted := True, deleted_at := Some now\<rparr>"
  let ?t1 = "map (\<lambda>r. if id_pk r = id_pk self then ?d r else r) tbl"
  have e1: "IsDeletedModel_delete now False self tbl = Inr ?t1"
    using assms(1,2) by (auto simp: IsDeletedModel_delete_eq)
  have a1: "\<forall>P. \<forall>r \<in> set (qs_rows IsDeletedModel (qs_filter (get_queryset IsDeletedModel) P) ?t1).
                   id_pk r \<noteq> id_pk r0"
    using assms(2) by (auto simp: set_qs_rows qs_filter_def get_queryset_def)
  have b1: "\<exists>r \<in> set (qs_rows IsDeletedModel unfiltered ?t1).
              id_pk r = id_pk r0 \<and> deleted_at r \<noteq> None"
    using assms(1,2)
    by (auto simp: set_qs_rows unfiltered_def intro!: bexI[of _ "?d r0"] image_eqI[of _ _ r0])
  let ?t2 = "IsDeletedQuerySet_delete False now q tbl"
  have a2: "\<forall>P. \<forall>r \<in> set (qs_rows IsDeletedModel (qs_filter (get_queryset IsDeletedModel) P) ?t2).
                   id_pk r \<noteq> id_pk r0"
    using assms(3) uniq
    by (auto simp: set_qs_rows qs_filter_def get_queryset_def IsDeletedQuerySet_delete_def
          qs_update_def split: if_splits)
  have b2: "\<exists>r \<in> set (qs_rows IsDeletedModel unfiltered ?t2).
              id_pk r = id_pk r0 \<and> deleted_at r \<noteq> None"
    using assms(1,3)
    by (auto simp: set_qs_rows unfiltered_def IsDeletedQuerySet_delete_def qs_update_def
          intro!: bexI[of _ "?d r0"] image_eqI[of _ _ r0])
  have c: "if id_pk new \<in> id_pk ` set tbl
           then IsDeletedModel_delete now True new tbl = Inl IntegrityError
           else (\<exists>tbl'. IsDeletedModel_delete now True new tbl = Inr tbl'
            \<and> (\<forall>P. \<forall>r \<in> set (qs_rows IsDeletedModel (qs_filter (get_queryset IsDeletedModel) P) tbl').
                   id_pk r \<noteq> id_pk new)
            \<and> (\<exists>r \<in> set (qs_rows IsDeletedModel unfiltered tbl').
                   id_pk r = id_pk new \<and> deleted_at r \<noteq> None))"
  proof (cases "id_pk new \<in> id_pk ` set tbl")
    case True
    then show ?thesis by (simp add: IsDeletedModel_delete_adding)
  next
    case False
    let ?n = "new\<lparr>created_at := now, updated_at := now, is_deleted := True, deleted_at := Some now\<rparr>"
    have fresh: "\<forall>x \<in> set tbl. id_pk x \<noteq> id_pk new"
      using False by (rule notin_imageD)
    have e3: "IsDeletedModel_delete now True new tbl = Inr (tbl @ [?n])"
      using False by (simp add: IsDeletedModel_delete_adding)
    have a3: "\<forall>P. \<forall>r \<in> set (qs_rows IsDeletedModel (qs_filter (get_queryset IsDeletedModel) P)
                               (tbl @ [?n])). id_pk r \<noteq> id_pk new"
      using fresh by (auto simp: set_qs_rows qs_filter_def get_queryset_def)
    have b3: "\<exists>r \<in> set (qs_rows IsDeletedModel unfiltered (tbl @ [?n])).
                id_pk r = id_pk new \<and> deleted_at r \<noteq> None"
      by (auto simp: set_qs_rows unfiltered_def intro!: bexI[of _ ?n])
    from e3 a3 b3 False show ?thesis by simp
  qed
  show ?thesis using e1 a1 b1 a2 b2 c by (simp add: Let_def)
qed

text \<open>
  The theorem at the sample table: its second row is deleted through a stale instance and
  through the queryset \<open>filter(id=3)\<close>, and the sample instance that was never saved is
  deleted.
\<close>

theorem soft_delete_hides_entity_witness:
  "(\<exists>tbl'. IsDeletedModel_delete 5 False sample_stale sample_rows = Inr tbl'
      \<and> (\<forall>P. \<forall>r \<in> set (qs_rows IsDeletedModel (qs_filter (get_queryset IsDeletedModel) P) tbl').
             id_pk r \<noteq> id_pk sample_row)
      \<and> (\<exists>r \<in> set (qs_rows IsDeletedModel unfiltered tbl').
             id_pk r = id_pk sample_row \<and> deleted_at r \<noteq> None))
   \<and> (let tbl' = IsDeletedQuerySet_delete False 5 (\<lambda>r. id_pk r = 3) sample_rows
      in (\<forall>P. \<forall>r \<in> set (qs_rows IsDeletedModel (qs_filter (get_queryset IsDeletedModel) P) tbl').
             id_pk r \<noteq> id_pk sample_row)
       \<and> (\<exists>r \<in> set (qs_rows IsDeletedModel unfiltered tbl').
             id_pk r = id_pk sample_row \<and> deleted_at r \<noteq> None))
   \<and> (if id_pk sample_unsaved \<in> id_pk ` set sample_rows
       then IsDeletedModel_delete 5 True sample_unsaved sample_rows = Inl IntegrityError
       else (\<exists>tbl'. IsDeletedModel_delete 5 True sample_unsaved sample_rows = Inr tbl'
        \<and> (\<forall>P. \<forall>r \<in> set (qs_rows IsDeletedModel (qs_filter (get_queryset IsDeletedModel) P) tbl').
               id_pk r \<noteq> id_pk sample_unsaved)
        \<and> (\<exists>r \<in> set (qs_rows IsDeletedModel unfiltered tbl').
               id_pk r = id_pk sample_unsaved \<and> deleted_at r \<noteq> None)))"
  by (rule soft_delete_hides_entity)
    (simp_all add: sample_rows_def sample_row_def sample_stale_def)

text \<open>
  Claim C8, as the code has it. A soft delete of a persisted entity persists the two
  columns \<open>is_deleted\<close> and \<open>deleted_at\<close> and nothing else. Through \<open>IsDeletedModel.delete\<close>
  on an instance that was loaded from or saved to the database: the call fails only when
  no row has the instance's key; otherwise the table keeps its length, a row with the key
  differs from its old self in those two columns only (whatever the in-memory instance
  holds in its other fields), and every other row is the same. Through
  \<open>IsDeletedQuerySet.delete(hard_delete=False)\<close>: the same for the selected rows. And when a
  view soft-deletes reviews, the tables of all other models are as before and no review
  row is removed.
\<close>

theorem soft_delete_frame:
  "(case IsDeletedModel_delete now False self tbl of
      Inl e \<Rightarrow> \<not> (\<exists>r \<in> set tbl. id_pk r = id_pk self)
    | Inr tbl' \<Rightarrow>
        length tbl' = length tbl \<and>
        (\<forall>i < length tbl.
           if id_pk (tbl ! i) = id_pk self
           then only_soft_delete_columns now (tbl ! i) (tbl' ! i)
           else tbl' ! i = tbl ! i))
   \<and> (let tbl' = IsDeletedQuerySet_delete False now q tbl
      in length tbl' = length tbl \<and>
         (\<forall>i < length tbl.
            if q (tbl ! i)
            then only_soft_delete_columns now (tbl ! i) (tbl' ! i)
            else tbl' ! i = tbl ! i))
   \<and> (let st' = snd (ReviewViewsDelete_delete IsDeletedModel u review_id now st)
      in products st' = products st \<and> shipping_addresses st' = shipping_addresses st \<and>
         orders st' = orders st \<and> orderitems st' = orderitems st \<and>
         length (reviews st') = length (reviews st))"
proof -
  have A: "(case IsDeletedModel_delete now False self tbl of
      Inl e \<Rightarrow> \<not> (\<exists>r \<in> set tbl. id_pk r = id_pk self)
    | Inr tbl' \<Rightarrow>
        length tbl' = length tbl \<and>
        (\<forall>i < length tbl.
           if id_pk (tbl ! i) = id_pk self
           then only_soft_delete_columns now (tbl ! i) (tbl' ! i)
           else tbl' ! i = tbl ! i))"
    by (simp add: IsDeletedModel_delete_eq only_soft_delete_columns_update)
  have B: "(let tbl' = IsDeletedQuerySet_delete False now q tbl
      in length tbl' = length tbl \<and>
         (\<forall>i < length tbl.
            if q (tbl ! i)
            then only_soft_delete_columns now (tbl ! i) (tbl' ! i)
            else tbl' ! i = tbl ! i))"
    by (simp add: IsDeletedQuerySet_delete_def qs_update_def only_soft_delete_columns_update)
  have C: "(let st' = snd (ReviewViewsDelete_delete IsDeletedModel u review_id now st)
      in products st' = products st \<and> shipping_addresses st' = shipping_addresses st \<and>
         orders st' = orders st \<and> orderitems st' = orderitems st \<and>
         length (reviews st') = length (reviews st))"
    by (simp add: ReviewViewsDelete_delete_def itertools_product_truthy_def queryset_delete_def
          IsDeletedQuerySet_delete_def qs_update_def)
  from A B C show ?thesis by blast
qed

text \<open>
  The theorem at the sample table, a stale instance of its second row, the queryset
  \<open>filter(id=3)\<close>, and the sample store, whose one review its owner deletes.
\<close>

theorem soft_delete_frame_witness:
  "(case IsDeletedModel_delete 5 False sample_stale sample_rows of
      Inl e \<Rightarrow> \<not> (\<exists>r \<in> set sample_rows. id_pk r = id_pk sample_stale)
    | Inr tbl' \<Rightarrow>
        length tbl' = length sample_rows \<and>
        (\<forall>i < length sample_rows.
           if id_pk (sample_rows ! i) = id_pk sample_stale
           then only_soft_delete_columns 5 (sample_rows ! i) (tbl' ! i)
           else tbl' ! i = sample_rows ! i))
   \<and> (let tbl' = IsDeletedQuerySet_delete False 5 (\<lambda>r. id_pk r = 3) sample_rows
      in length tbl' = length sample_rows \<and>
         (\<forall>i < length sample_rows.
            if (\<lambda>r. id_pk r = 3) (sample_rows ! i)
            then only_soft_delete_columns 5 (sample_rows ! i) (tbl' ! i)
            else tbl' ! i = sample_rows ! i))
   \<and> (let st' = snd (ReviewViewsDelete_delete IsDeletedModel 1 4 5 sample_store)
      in products st' = products sample_store \<and>
         shipping_addresses st' = shipping_addresses sample_store \<and>
         orders st' = orders sample_store \<and> orderitems st' = orderitems sample_store \<and>
         length (reviews st') = length (reviews sample_store))"
  by (rule soft_delete_frame)

text \<open>
  Claim C8 as stated fails for an entity that was never saved: a review built in memory
  with the fresh key 9 is soft-deleted at time 5 while the table holds the sample review.
  \<open>save(update_fields=["is_deleted", "deleted_at"])\<close> then inserts the whole row: user,
  product, rating, text and both timestamps are persisted along with the two columns.
\<close>

theorem soft_delete_unsaved_inserts_row:
  "IsDeletedModel_delete 5 True
     \<lparr>id_pk = 9, created_at = 0, updated_at = 0, is_deleted = False, deleted_at = None,
       Review.user = 1, Review.product = 2, rating = 2, review_text = ''dull''\<rparr>
     [sample_review]
   = Inr [sample_review,
          \<lparr>id_pk = 9, created_at = 5, updated_at = 5, is_deleted = True, deleted_at = Some 5,
            Review.user = 1, Review.product = 2, rating = 2, review_text = ''dull''\<rparr>]"
  by (simp add: IsDeletedModel_delete_def save_update_fields_def insert_row_def Let_def
        sample_review_def)

text \<open>
  Claim C7, as the code has it. Every evaluated queryset of a soft-deletable model,
  filtered or \<open>unfiltered()\<close>, comes in descending order of the primary key
  (\<open>ordering = ['-id']\<close>). The key is a random UUID, so this order says nothing about the
  time of creation.
\<close>

theorem default_ordering_descending_id:
  "sorted (rev (map id_pk (qs_rows IsDeletedModel q tbl)))"
  by (simp add: qs_rows_def ordering_def rev_map)

text \<open>
  Claim C7 as stated fails: of two live rows, the one created first (at time 1, with key 7)
  is returned before the one created last (at time 2, with key 3).
\<close>

theorem default_ordering_not_by_creation:
  "map (\<lambda>r. (id_pk r, created_at r))
     (qs_rows IsDeletedModel (get_queryset IsDeletedModel)
        [\<lparr>id_pk = 7, created_at = 1, updated_at = 1, is_deleted = False, deleted_at = None\<rparr>,
         \<lparr>id_pk = 3, created_at = 2, updated_at = 2, is_deleted = False, deleted_at = None\<rparr>])
   = [(7, 1), (3, 2)]"
  by (simp add: qs_rows_def ordering_def get_queryset_def)

section \<open>Reviews\<close>

text \<open>
  Claim C9. \<open>ReviewViewsDelete.delete\<close> always answers 200. A review that does not have
  both the requested id and the acting user as its owner stays in the table as it is,
  whether reviews are deleted softly or hard; and when the review with the requested id
  belongs to another user, the store after the call is the store before it.
\<close>

theorem delete_review_owner_only:
  assumes "distinct (map id_pk (reviews st))"
  shows "fst (ReviewViewsDelete_delete rk u review_id now st)
           = Inr (Response (Some ''Product deleted successfully'') None 200)
       \<and> (\<forall>r \<in> set (reviews st). \<not> (id_pk r = review_id \<and> Review.user r = u)
             \<longrightarrow> r \<in> set (reviews (snd (ReviewViewsDelete_delete rk u review_id now st))))
       \<and> (\<forall>r \<in> set (reviews st). id_pk r = review_id \<and> Review.user r \<noteq> u
             \<longrightarrow> snd (ReviewViewsDelete_delete rk u review_id now st) = st)"
proof -
  let ?q = "qs_filter (get_queryset rk) (\<lambda>r. id_pk r = review_id \<and> Review.user r = u)"
  have s: "snd (ReviewViewsDelete_delete rk u review_id now st)
             = st\<lparr>reviews := queryset_delete rk now ?q (reviews st)\<rparr>"
    by (simp add: ReviewViewsDelete_delete_def itertools_product_truthy_def)
  have a: "fst (ReviewViewsDelete_delete rk u review_id now st)
           = Inr (Response (Some ''Product deleted successfully'') None 200)"
    by (simp add: ReviewViewsDelete_delete_def itertools_product_truthy_def)
  have b: "\<forall>r \<in> set (reviews st). \<not> (id_pk r = review_id \<and> Review.user r = u)
             \<longrightarrow> r \<in> set (reviews (snd (ReviewViewsDelete_delete rk u review_id now st)))"
    by (auto simp: s qs_filter_def intro!: queryset_delete_keeps)
  have c: "snd (ReviewViewsDelete_delete rk u review_id now st) = st"
    if "r \<in> set (reviews st)" "id_pk r = review_id" "Review.user r \<noteq> u" for r
  proof -
    have "\<And>x. x \<in> set (reviews st) \<Longrightarrow> id_pk x = review_id \<Longrightarrow> x = r"
      using same_key_same_row[OF assms that(1)] that(2) by simp
    then have "\<forall>x \<in> set (reviews st). \<not> ?q x"
      using that(3) by (auto simp: qs_filter_def)
    then show ?thesis by (simp add: s queryset_delete_none)
  qed
  from a b c show ?thesis by blast
qed

text \<open>
  The theorem at the sample store: user 9 asks to delete review 4, which user 1 wrote;
  nothing changes.
\<close>

theorem delete_review_owner_only_witness:
  "distinct (map id_pk (reviews sample_store))
   \<and> fst (ReviewViewsDelete_delete IsDeletedModel 9 4 5 sample_store)
       = Inr (Response (Some ''Product deleted successfully'') None 200)
   \<and> snd (ReviewViewsDelete_delete IsDeletedModel 9 4 5 sample_store) = sample_store"
proof -
  have d: "distinct (map id_pk (reviews sample_store))"
    by (simp add: sample_store_def)
  have m: "sample_review \<in> set (reviews sample_store)"
    by (simp add: sample_store_def)
  have o: "id_pk sample_review = 4 \<and> Review.user sample_review \<noteq> 9"
    by (simp add: sample_review_def)
  from delete_review_owner_only[OF d, of IsDeletedModel 9 4 5] m o d
  show ?thesis by blast
qed

section \<open>Checkout\<close>

text \<open>
  Claim C4. When the user has no cart row (no \<open>OrderItem\<close> of theirs with \<open>order = null\<close>),
  checkout answers with the failure "No Items in Cart" (status 404) and the store is the
  one before the call: no order is created and no order item is modified.
\<close>

theorem checkout_empty_cart:
  assumes "\<forall>i \<in> set (orderitems st). \<not> (OrderItem.user i = u \<and> order_id i = None)"
  shows "CheckoutView_post sk u shipping_id new_id now st
           = (Inr (Response (Some ''No Items in Cart'') None 404), st)"
  using assms
  by (simp add: CheckoutView_post_def qs_exists_def cart_of_eq filter_empty_conv)

text \<open>The theorem at the sample store and user 5, who has nothing in the cart.\<close>

theorem checkout_empty_cart_witness:
  "CheckoutView_post BaseModel 5 (Some 6) 11 3 sample_store
     = (Inr (Response (Some ''No Items in Cart'') None 404), sample_store)"
  by (rule checkout_empty_cart) (simp add: sample_store_def sample_item_def)

text \<open>
  Claim C10. When the cart is not empty and the validated data has no \<open>shipping_id\<close>, the
  view raises \<open>UnboundLocalError\<close> at the first \<open>getattr(shipping, field)\<close> instead of
  returning a response, and the store is the one before the call: no order exists and no
  order item is re-parented.
\<close>

theorem checkout_without_shipping_id_raises:
  assumes "\<exists>i \<in> set (orderitems st). OrderItem.user i = u \<and> order_id i = None"
  shows "CheckoutView_post sk u None new_id now st = (Inl UnboundLocalError, st)"
  using assms
  by (auto simp add: CheckoutView_post_def qs_exists_def cart_of_eq filter_empty_conv
        CheckoutView_post_order_def fields_to_update_def getattr_shipping_def)

text \<open>The theorem at the sample store and user 1, who has one cart row.\<close>

theorem checkout_without_shipping_id_raises_witness:
  "CheckoutView_post BaseModel 1 None 11 3 sample_store = (Inl UnboundLocalError, sample_store)"
  by (rule checkout_without_shipping_id_raises) (simp add: sample_store_def sample_item_def)

text \<open>
  Claim C1. When the user has at least one cart row, the \<open>shipping_id\<close> resolves to the
  address \<open>a\<close>, and the key drawn for the order is not taken, checkout answers
  "Checkout Successful" (status 200) with the order \<open>ord\<close>; the table of orders is the old
  one with exactly \<open>ord\<close> appended; every cart row of the user now refers to \<open>ord\<close> and
  every other order item is as before; \<open>ord\<close> is owned by the user and its seven shipping
  fields are those of \<open>a\<close>.
\<close>

theorem checkout_creates_order:
  assumes cart: "\<exists>i \<in> set (orderitems st). OrderItem.user i = u \<and> order_id i = None"
    and ship: "get_or_none sk (\<lambda>a. id_pk a = sid) (shipping_addresses st) = Inr (Some a)"
    and fresh: "new_id \<notin> id_pk ` set (orders st)"
  shows "\<exists>ord. CheckoutView_post sk u (Some sid) new_id now st
            = (Inr (Response (Some ''Checkout Successful'') (Some ord) 200),
               st\<lparr>orders := orders st @ [ord],
                  orderitems := map (\<lambda>i. if OrderItem.user i = u \<and> order_id i = None
                                         then i\<lparr>order_id := Some (id_pk ord)\<rparr> else i)
                                  (orderitems st)\<rparr>)
          \<and> id_pk ord = new_id \<and> Order.user ord = u
          \<and> Order.full_name ord = ShippingAddress.full_name a
          \<and> Order.email ord = ShippingAddress.email a
          \<and> Order.phone ord = ShippingAddress.phone a
          \<and> Order.address ord = ShippingAddress.address a
          \<and> Order.city ord = ShippingAddress.city a
          \<and> Order.country ord = ShippingAddress.country a
          \<and> Order.zipcode ord = ShippingAddress.zipcode a"
proof -
  have ex: "qs_exists (cart_of u) (orderitems st)"
    using cart by (auto simp: qs_exists_def cart_of_eq filter_empty_conv)
  let ?o = "new_Order u [''full_name'' \<mapsto> ShippingAddress.full_name a,
          ''email'' \<mapsto> ShippingAddress.email a,
          ''phone'' \<mapsto> ShippingAddress.phone a, ''address'' \<mapsto> ShippingAddress.address a,
          ''city'' \<mapsto> ShippingAddress.city a, ''country'' \<mapsto> ShippingAddress.country a,
          ''zipcode'' \<mapsto> ShippingAddress.zipcode a] new_id now"
  have o: "?o = \<lparr>id_pk = new_id, created_at = now, updated_at = now,
       is_deleted = False, deleted_at = None,
       Order.user = u,
       Order.full_name = ShippingAddress.full_name a, Order.email = ShippingAddress.email a,
       Order.phone = ShippingAddress.phone a, Order.address = ShippingAddress.address a,
       Order.city = ShippingAddress.city a, Order.country = ShippingAddress.country a,
       Order.zipcode = ShippingAddress.zipcode a\<rparr>"
    by (rule new_Order_fields) (rule collect_fields_bound)
  have cr: "create ?o (orders st) = Inr (orders st @ [?o])"
    using fresh by (simp add: create_def insert_row_def o)
  have "CheckoutView_post_order u (Bound a) new_id now st
     = (Inr (Response (Some ''Checkout Successful'') (Some ?o) 200),
               st\<lparr>orders := orders st @ [?o],
                  orderitems := map (\<lambda>i. if OrderItem.user i = u \<and> order_id i = None
                                         then i\<lparr>order_id := Some (id_pk ?o)\<rparr> else i)
                                  (orderitems st)\<rparr>)"
    unfolding CheckoutView_post_order_def collect_fields_bound
    by (simp add: cr Let_def cart_of_eq qs_update_def del: fun_upd_apply)
  then have "CheckoutView_post sk u (Some sid) new_id now st
     = (Inr (Response (Some ''Checkout Successful'') (Some ?o) 200),
               st\<lparr>orders := orders st @ [?o],
                  orderitems := map (\<lambda>i. if OrderItem.user i = u \<and> order_id i = None
                                         then i\<lparr>order_id := Some (id_pk ?o)\<rparr> else i)
                                  (orderitems st)\<rparr>)"
    using ex ship by (simp add: CheckoutView_post_def)
  moreover have "id_pk ?o = new_id \<and> Order.user ?o = u
          \<and> Order.full_name ?o = ShippingAddress.full_name a
          \<and> Order.email ?o = ShippingAddress.email a
          \<and> Order.phone ?o = ShippingAddress.phone a
          \<and> Order.address ?o = ShippingAddress.address a
          \<and> Order.city ?o = ShippingAddress.city a
          \<and> Order.country ?o = ShippingAddress.country a
          \<and> Order.zipcode ?o = ShippingAddress.zipcode a"
    by (simp add: o)
  ultimately show ?thesis by blast
qed

text \<open>
  The theorem at the sample store: user 1 checks out the one cart row with address 6, the
  order gets key 11 at time 3.
\<close>

theorem checkout_creates_order_witness:
  "\<exists>ord. CheckoutView_post BaseModel 1 (Some 6) 11 3 sample_store
            = (Inr (Response (Some ''Checkout Successful'') (Some ord) 200),
               sample_store\<lparr>orders := orders sample_store @ [ord],
                  orderitems := map (\<lambda>i. if OrderItem.user i = 1 \<and> order_id i = None
                                         then i\<lparr>order_id := Some (id_pk ord)\<rparr> else i)
                                  (orderitems sample_store)\<rparr>)
          \<and> id_pk ord = 11 \<and> Order.user ord = 1
          \<and> Order.full_name ord = ShippingAddress.full_name sample_address
          \<and> Order.email ord = ShippingAddress.email sample_address
          \<and> Order.phone ord = ShippingAddress.phone sample_address
          \<and> Order.address ord = ShippingAddress.address sample_address
          \<and> Order.city ord = ShippingAddress.city sample_address
          \<and> Order.country ord = ShippingAddress.country sample_address
          \<and> Order.zipcode ord = ShippingAddress.zipcode sample_address"
proof (rule checkout_creates_order)
  show "\<exists>i \<in> set (orderitems sample_store). OrderItem.user i = 1 \<and> order_id i = None"
    by (simp add: sample_store_def sample_item_def)
  show "get_or_none BaseModel (\<lambda>a. id_pk a = 6) (shipping_addresses sample_store)
          = Inr (Some sample_address)"
    by (simp add: get_or_none_def get_def qs_filter_def get_queryset_def sample_store_def
          sample_address_def)
  show "11 \<notin> id_pk ` set (orders sample_store)"
    by (simp add: sample_store_def)
qed

section \<open>Submitting a review\<close>

text \<open>
  Claim C6. Let the product resolve, let no review of the user for it be visible to the
  manager, and let the key drawn for the new review be free. Then the first
  \<open>submitReview\<close> answers 201 (Created) with the review it inserted, and a second one, with
  any other rating and text, answers 200 (Updated) with the review as it now is; after
  it the manager sees exactly one review of the user for the product, and that review
  holds the rating and the text of the second call.
\<close>

theorem submit_review_twice:
  assumes prod: "get pk (\<lambda>p. id_pk p = product_id) (products st) = Inr p"
    and none: "\<forall>r \<in> set (reviews st). get_queryset rk r \<longrightarrow> \<not> review_key u product_id r"
    and fresh: "new_id \<notin> id_pk ` set (reviews st)"
  shows "\<exists>r1 r2 st1.
           ReviewViewsPost_post pk rk u product_id rating1 text1 new_id now1 st
             = (Inr (Response None (Some r1) 201), st1)
         \<and> r1 \<in> set (reviews st1) \<and> rating r1 = rating1 \<and> review_text r1 = text1
         \<and> ReviewViewsPost_post pk rk u product_id rating2 text2 new_id2 now2 st1
             = (Inr (Response None (Some r2) 200), st\<lparr>reviews := reviews st @ [r2]\<rparr>)
         \<and> filter (qs_filter (get_queryset rk) (review_key u product_id)) (reviews st @ [r2]) = [r2]
         \<and> rating r2 = rating2 \<and> review_text r2 = text2
         \<and> Review.user r2 = u \<and> Review.product r2 = product_id"
proof -
  let ?q = "qs_filter (get_queryset rk) (review_key u product_id)"
  let ?r1 = "\<lparr>id_pk = new_id, created_at = now1, updated_at = now1,
               is_deleted = False, deleted_at = None,
               Review.user = u, Review.product = product_id,
               rating = rating1, review_text = text1\<rparr>"
  let ?r2 = "?r1\<lparr>rating := rating2, review_text := text2, updated_at := now2\<rparr>"
  let ?st1 = "st\<lparr>reviews := reviews st @ [?r1]\<rparr>"
  have pid: "id_pk p = product_id" using get_InrD[OF prod] by simp
  have f0: "filter ?q (reviews st) = []"
    using none by (auto simp: filter_empty_conv qs_filter_def)
  have q1: "?q ?r1" by (cases rk) (simp_all add: qs_filter_def get_queryset_def review_key_def)
  have q2: "?q ?r2" by (cases rk) (simp_all add: qs_filter_def get_queryset_def review_key_def)
  have f1: "filter ?q (reviews st @ [?r1]) = [?r1]" using f0 q1 by simp
  have f2: "filter ?q (reviews st @ [?r2]) = [?r2]" using f0 q2 by simp
  have u1: "update_or_create rk (review_key u product_id)
              (\<lambda>r. r\<lparr>rating := rating1, review_text := text1\<rparr>) ?r1 now1 (reviews st)
            = Inr ((?r1, True), reviews st @ [?r1])"
    using f0 fresh by (intro update_or_create_absent) simp_all
  have u2: "update_or_create rk (review_key u product_id)
              (\<lambda>r. r\<lparr>rating := rating2, review_text := text2\<rparr>) new2 now2 (reviews st @ [?r1])
            = Inr ((?r2, False), reviews st @ [?r2])" for new2
    using update_or_create_present[OF f1, of "\<lambda>r. r\<lparr>rating := rating2, review_text := text2\<rparr>"
            new2 now2]
      map_replace_last[of ?r1 "reviews st" ?r2] fresh
    by simp
  have c1: "ReviewViewsPost_post pk rk u product_id rating1 text1 new_id now1 st
             = (Inr (Response None (Some ?r1) 201), ?st1)"
    by (simp add: ReviewViewsPost_post_def prod pid u1)
  have c2: "ReviewViewsPost_post pk rk u product_id rating2 text2 new_id2 now2 ?st1
             = (Inr (Response None (Some ?r2) 200), st\<lparr>reviews := reviews st @ [?r2]\<rparr>)"
    by (simp add: ReviewViewsPost_post_def prod pid u2)
  have "?r1 \<in> set (reviews ?st1) \<and> rating ?r1 = rating1 \<and> review_text ?r1 = text1" by simp
  moreover have "rating ?r2 = rating2 \<and> review_text ?r2 = text2
         \<and> Review.user ?r2 = u \<and> Review.product ?r2 = product_id" by simp
  ultimately show ?thesis using c1 c2 f2 by blast
qed

text \<open>
  The theorem at the sample store: user 3, who has no review yet, rates product 2 with 1
  and then with 5.
\<close>

theorem submit_review_twice_witness:
  "\<exists>r1 r2 st1.
      ReviewViewsPost_post BaseModel IsDeletedModel 3 2 1 ''bad'' 12 6 sample_store
        = (Inr (Response None (Some r1) 201), st1)
    \<and> r1 \<in> set (reviews st1) \<and> rating r1 = 1 \<and> review_text r1 = ''bad''
    \<and> ReviewViewsPost_post BaseModel IsDeletedModel 3 2 5 ''fine'' 13 7 st1
        = (Inr (Response None (Some r2) 200),
           sample_store\<lparr>reviews := reviews sample_store @ [r2]\<rparr>)
    \<and> filter (qs_filter (get_queryset IsDeletedModel) (review_key 3 2))
         (reviews sample_store @ [r2]) = [r2]
    \<and> rating r2 = 5 \<and> review_text r2 = ''fine''
    \<and> Review.user r2 = 3 \<and> Review.product r2 = 2"
proof (rule submit_review_twice)
  show "get BaseModel (\<lambda>p. id_pk p = 2) (products sample_store) = Inr sample_product"
    by (simp add: get_def qs_filter_def get_queryset_def sample_store_def sample_product_def)
  show "\<forall>r \<in> set (reviews sample_store).
          get_queryset IsDeletedModel r \<longrightarrow> \<not> review_key 3 2 r"
    by (simp add: sample_store_def sample_review_def review_key_def)
  show "12 \<notin> id_pk ` set (reviews sample_store)"
    by (simp add: sample_store_def sample_review_def)
qed

section \<open>The cart\<close>

lemma filter_replace:
  assumes "distinct (map id_pk tbl)" and "filter Q tbl = [obj]" and "Q obj'"
  shows "filter Q (map (\<lambda>r. if id_pk r = id_pk obj then obj' else r) tbl) = [obj']"
  using assms
proof (induction tbl)
  case Nil
  then show ?case by simp
next
  case (Cons x xs)
  show ?case
  proof (cases "Q x")
    case True
    with Cons.prems(2) have x: "x = obj" and e: "filter Q xs = []" by simp_all
    have "\<forall>y \<in> set xs. id_pk y \<noteq> id_pk obj"
      using distinct_map_ConsD[OF Cons.prems(1)] x by simp
    then have "map (\<lambda>r. if id_pk r = id_pk obj then obj' else r) xs = xs"
      by (intro map_idI) simp
    then show ?thesis using x e Cons.prems(3) by simp
  next
    case False
    with Cons.prems(2) have f: "filter Q xs = [obj]" by simp
    have "obj \<in> set xs" using filter_singletonD[OF f] by simp
    with distinct_map_ConsD[OF Cons.prems(1)] have "id_pk obj \<noteq> id_pk x"
      by (rule bspec)
    then have "id_pk x \<noteq> id_pk obj" by (rule not_sym)
    moreover have "filter Q (map (\<lambda>r. if id_pk r = id_pk obj then obj' else r) xs) = [obj']"
      using Cons.IH Cons.prems(1,3) f by simp
    ultimately show ?thesis using False by simp
  qed
qed

lemma replace_pointwise:
  assumes "distinct (map id_pk tbl)" and "obj \<in> set tbl"
  shows "map (\<lambda>r. if id_pk r = id_pk obj then g obj else r) tbl
       = map (\<lambda>r. if id_pk r = id_pk obj then g r else r) tbl"
proof (rule map_cong[OF refl])
  fix x assume "x \<in> set tbl"
  then have "id_pk x = id_pk obj \<Longrightarrow> x = obj"
    using same_key_same_row[OF assms] by simp
  then show "(if id_pk x = id_pk obj then g obj else x) = (if id_pk x = id_pk obj then g x else x)"
    by auto
qed

lemma distinct_replace:
  assumes "distinct (map id_pk tbl)" and "id_pk obj' = k"
  shows "distinct (map id_pk (map (\<lambda>r. if id_pk r = k then obj' else r) tbl))"
proof -
  have "map id_pk (map (\<lambda>r. if id_pk r = k then obj' else r) tbl) = map id_pk tbl"
    unfolding map_map by (rule map_cong[OF refl]) (simp add: assms(2))
  then show ?thesis using assms(1) by (simp only:)
qed

lemma delete_replaced:
  assumes "id_pk obj' = k"
  shows "filter (\<lambda>r. id_pk r \<noteq> k) (map (\<lambda>r. if id_pk r = k then obj' else r) tbl)
       = filter (\<lambda>r. id_pk r \<noteq> k) tbl"
  using assms by (induction tbl) auto

lemma delete_appended:
  assumes "id_pk new \<notin> id_pk ` set tbl"
  shows "filter (\<lambda>r. id_pk r \<noteq> id_pk new) (tbl @ [new]) = tbl"
proof -
  have "\<forall>x \<in> set tbl. id_pk x \<noteq> id_pk new" using assms by (rule notin_imageD)
  then show ?thesis by simp
qed

lemma cart_key_qs: "qs_filter (get_queryset OrderItem_kind) (cart_key u p) = cart_key u p"
  by (auto simp: qs_filter_def get_queryset_def OrderItem_kind_def)

lemma respond_positive:
  assumes "quantity oi \<noteq> 0"
  shows "CartView_post_respond oi created now st =
     (Inr (Response (Some (if created then ''Item Added To Cart'' else ''Item Updated In Cart''))
            (Some oi) (if created then 201 else 200)), st)"
  using assms by (simp add: CartView_post_respond_def)

lemma respond_zero:
  assumes "quantity oi = 0"
  shows "CartView_post_respond oi created now st =
     (Inr (Response (Some ''Item Removed From Cart'') None (if created then 201 else 200)),
      st\<lparr>orderitems := filter (\<lambda>r. id_pk r \<noteq> id_pk oi) (orderitems st)\<rparr>)"
  using assms
  by (simp add: CartView_post_respond_def instance_delete_def OrderItem_kind_def Model_delete_def)

lemma upsert_absent:
  assumes prod: "get_or_none pk (\<lambda>p. slug p = s) (products st) = Inr (Some p)"
    and none: "filter (cart_key u (id_pk p)) (orderitems st) = []"
    and fresh: "new_id \<notin> id_pk ` set (orderitems st)"
  shows "CartView_post_upsert pk u s q new_id now st =
           Inr (Some ((\<lparr>id_pk = new_id, created_at = now, updated_at = now,
                    is_deleted = False, deleted_at = None,
                    OrderItem.user = u, order_id = None, OrderItem.product = id_pk p,
                    quantity = q\<rparr>, True),
                 st\<lparr>orderitems := orderitems st @ [\<lparr>id_pk = new_id, created_at = now,
                    updated_at = now, is_deleted = False, deleted_at = None,
                    OrderItem.user = u, order_id = None, OrderItem.product = id_pk p,
                    quantity = q\<rparr>]\<rparr>))"
  unfolding CartView_post_upsert_def prod
  using update_or_create_absent[of OrderItem_kind "cart_key u (id_pk p)" "orderitems st"
           "\<lparr>id_pk = new_id, created_at = now, updated_at = now,
                    is_deleted = False, deleted_at = None,
                    OrderItem.user = u, order_id = None, OrderItem.product = id_pk p,
                    quantity = q\<rparr>"
           "\<lambda>i. i\<lparr>quantity := q\<rparr>" now] none fresh
  by (simp add: cart_key_qs)

lemma upsert_present:
  assumes prod: "get_or_none pk (\<lambda>p. slug p = s) (products st) = Inr (Some p)"
    and one: "filter (cart_key u (id_pk p)) (orderitems st) = [i0]"
  shows "CartView_post_upsert pk u s q new_id now st =
           Inr (Some ((i0\<lparr>quantity := q, updated_at := now\<rparr>, False),
                 st\<lparr>orderitems := map (\<lambda>r. if id_pk r = id_pk i0
                                            then i0\<lparr>quantity := q, updated_at := now\<rparr> else r)
                                     (orderitems st)\<rparr>))"
  unfolding CartView_post_upsert_def prod
  using update_or_create_present[of OrderItem_kind "cart_key u (id_pk p)" "orderitems st" i0
           "\<lambda>i. i\<lparr>quantity := q\<rparr>"] one
  by (simp add: cart_key_qs)

text \<open>
  What the upsert of \<open>CartView.post\<close> leaves behind, whichever branch it takes: one cart row
  for the key, holding the quantity, in a table whose keys are still distinct.
\<close>

lemma upsert_result:
  assumes prod: "get_or_none pk (\<lambda>p. slug p = s) (products st) = Inr (Some p)"
    and uniq: "distinct (map id_pk (orderitems st))"
    and most1: "length (filter (cart_key u (id_pk p)) (orderitems st)) \<le> 1"
    and fresh: "new_id \<notin> id_pk ` set (orderitems st)"
  shows "\<exists>i1 created tbl1.
           CartView_post_upsert pk u s q new_id now st
             = Inr (Some ((i1, created), st\<lparr>orderitems := tbl1\<rparr>))
         \<and> filter (cart_key u (id_pk p)) tbl1 = [i1] \<and> quantity i1 = q
         \<and> distinct (map id_pk tbl1)"
proof (cases "filter (cart_key u (id_pk p)) (orderitems st)")
  case Nil
  let ?new = "\<lparr>id_pk = new_id, created_at = now, updated_at = now,
                    is_deleted = False, deleted_at = None,
                    OrderItem.user = u, order_id = None, OrderItem.product = id_pk p,
                    quantity = q\<rparr>"
  have "filter (cart_key u (id_pk p)) (orderitems st @ [?new]) = [?new]"
    using Nil by (simp add: cart_key_def)
  moreover have "distinct (map id_pk (orderitems st @ [?new]))"
    using uniq fresh by simp
  moreover have "quantity ?new = q" by simp
  ultimately show ?thesis using upsert_absent[OF prod Nil fresh, of q now] by blast
next
  case (Cons i0 rest)
  then have one: "filter (cart_key u (id_pk p)) (orderitems st) = [i0]"
    using most1 by simp
  let ?i1 = "i0\<lparr>quantity := q, updated_at := now\<rparr>"
  let ?tbl1 = "map (\<lambda>r. if id_pk r = id_pk i0 then ?i1 else r) (orderitems st)"
  have k: "cart_key u (id_pk p) ?i1"
    using filter_singletonD[OF one] by (simp add: cart_key_def)
  have "filter (cart_key u (id_pk p)) ?tbl1 = [?i1]"
    by (rule filter_replace[OF uniq one k])
  moreover have "distinct (map id_pk ?tbl1)"
    by (rule distinct_replace[OF uniq]) simp
  moreover have "quantity ?i1 = q" by simp
  ultimately show ?thesis using upsert_present[OF prod one, of q new_id now] by blast
qed

text \<open>
  Claim C5, as the code has it. Let the product resolve, let the cart hold at most one
  row for the key (user, product, order = null), let the primary keys be distinct and
  the key drawn for a new row be free. After \<open>toggleItem\<close> with a quantity \<open>q > 0\<close> the
  cart holds exactly one row \<open>i1\<close> for the key, with quantity \<open>q\<close>. A second call with the
  same \<open>q\<close> answers "Item Updated In Cart" (status 200) with that row, and the store after
  it is the store before it except for the \<open>updated_at\<close> of that row, which is now the
  time of the second call; the cart still holds exactly that one row for the key.
\<close>

theorem toggle_twice_same_quantity:
  assumes prod: "get_or_none pk (\<lambda>p. slug p = s) (products st) = Inr (Some p)"
    and pos: "0 < q"
    and uniq: "distinct (map id_pk (orderitems st))"
    and most1: "length (filter (cart_key u (id_pk p)) (orderitems st)) \<le> 1"
    and fresh: "new_id \<notin> id_pk ` set (orderitems st)"
  shows "\<exists>resp1 st1 i1.
           CartView_post pk u s q new_id now1 st = (Inr resp1, st1)
         \<and> filter (cart_key u (id_pk p)) (orderitems st1) = [i1] \<and> quantity i1 = q
         \<and> CartView_post pk u s q new_id2 now2 st1
             = (Inr (Response (Some ''Item Updated In Cart'') (Some (i1\<lparr>updated_at := now2\<rparr>)) 200),
                st1\<lparr>orderitems := map (\<lambda>i. if id_pk i = id_pk i1
                                           then i\<lparr>updated_at := now2\<rparr> else i)
                                    (orderitems st1)\<rparr>)
         \<and> filter (cart_key u (id_pk p))
              (map (\<lambda>i. if id_pk i = id_pk i1 then i\<lparr>updated_at := now2\<rparr> else i)
                 (orderitems st1))
             = [i1\<lparr>updated_at := now2\<rparr>]"
proof -
  obtain i1 created tbl1 where
    up1: "CartView_post_upsert pk u s q new_id now1 st
            = Inr (Some ((i1, created), st\<lparr>orderitems := tbl1\<rparr>))"
    and f1: "filter (cart_key u (id_pk p)) tbl1 = [i1]"
    and q1: "quantity i1 = q"
    and d1: "distinct (map id_pk tbl1)"
    using upsert_result[OF prod uniq most1 fresh, of q now1] by blast
  let ?st1 = "st\<lparr>orderitems := tbl1\<rparr>"
  let ?i2 = "i1\<lparr>updated_at := now2\<rparr>"
  let ?tbl2 = "map (\<lambda>i. if id_pk i = id_pk i1 then i\<lparr>updated_at := now2\<rparr> else i) tbl1"
  have nz: "quantity i1 \<noteq> 0" using q1 pos by simp
  have c1: "CartView_post pk u s q new_id now1 st
          = (Inr (Response (Some (if created then ''Item Added To Cart''
                                   else ''Item Updated In Cart''))
                    (Some i1) (if created then 201 else 200)), ?st1)"
    by (simp add: CartView_post_def up1 respond_positive[OF nz])
  have prod1: "get_or_none pk (\<lambda>p. slug p = s) (products ?st1) = Inr (Some p)"
    using prod by simp
  have one1: "filter (cart_key u (id_pk p)) (orderitems ?st1) = [i1]"
    using f1 by simp
  have same: "i1\<lparr>quantity := q, updated_at := now2\<rparr> = ?i2"
    using q1 by (cases i1) simp
  have mem: "i1 \<in> set tbl1" using filter_singletonD[OF f1] by simp
  have tbl2: "map (\<lambda>r. if id_pk r = id_pk i1 then ?i2 else r) tbl1 = ?tbl2"
    by (rule replace_pointwise[OF d1 mem])
  have up2: "CartView_post_upsert pk u s q new_id2 now2 ?st1
            = Inr (Some ((?i2, False), ?st1\<lparr>orderitems := ?tbl2\<rparr>))"
    using upsert_present[OF prod1 one1, of q new_id2 now2] unfolding same by (simp add: tbl2)
  have nz2: "quantity ?i2 \<noteq> 0" using nz by simp
  have c2: "CartView_post pk u s q new_id2 now2 ?st1
          = (Inr (Response (Some ''Item Updated In Cart'') (Some ?i2) 200),
             ?st1\<lparr>orderitems := ?tbl2\<rparr>)"
    by (simp add: CartView_post_def up2 respond_positive[OF nz2])
  have k: "cart_key u (id_pk p) ?i2"
    using filter_singletonD[OF f1] by (simp add: cart_key_def)
  have f2: "filter (cart_key u (id_pk p)) ?tbl2 = [?i2]"
    using filter_replace[OF d1 f1 k] by (simp add: tbl2)
  have "filter (cart_key u (id_pk p)) (orderitems ?st1) = [i1] \<and> quantity i1 = q
         \<and> CartView_post pk u s q new_id2 now2 ?st1
             = (Inr (Response (Some ''Item Updated In Cart'') (Some ?i2) 200),
                ?st1\<lparr>orderitems := map (\<lambda>i. if id_pk i = id_pk i1
                                           then i\<lparr>updated_at := now2\<rparr> else i)
                                    (orderitems ?st1)\<rparr>)
         \<and> filter (cart_key u (id_pk p))
              (map (\<lambda>i. if id_pk i = id_pk i1 then i\<lparr>updated_at := now2\<rparr> else i)
                 (orderitems ?st1))
             = [?i2]"
    using one1 q1 c2 f2 by simp
  with c1 show ?thesis by blast
qed

text \<open>
  The theorem at the sample store: user 5, whose cart is empty, puts 3 mugs in the cart at
  time 8 and again at time 9.
\<close>

theorem toggle_twice_same_quantity_witness:
  "\<exists>resp1 st1 i1.
      CartView_post BaseModel 5 ''mug'' 3 20 8 sample_store = (Inr resp1, st1)
    \<and> filter (cart_key 5 (id_pk sample_product)) (orderitems st1) = [i1] \<and> quantity i1 = 3
    \<and> CartView_post BaseModel 5 ''mug'' 3 21 9 st1
        = (Inr (Response (Some ''Item Updated In Cart'') (Some (i1\<lparr>updated_at := 9\<rparr>)) 200),
           st1\<lparr>orderitems := map (\<lambda>i. if id_pk i = id_pk i1
                                      then i\<lparr>updated_at := 9\<rparr> else i)
                               (orderitems st1)\<rparr>)
    \<and> filter (cart_key 5 (id_pk sample_product))
         (map (\<lambda>i. if id_pk i = id_pk i1 then i\<lparr>updated_at := 9\<rparr> else i)
            (orderitems st1))
        = [i1\<lparr>updated_at := 9\<rparr>]"
proof (rule toggle_twice_same_quantity)
  show "get_or_none BaseModel (\<lambda>p. slug p = ''mug'') (products sample_store)
          = Inr (Some sample_product)"
    by (simp add: get_or_none_def get_def qs_filter_def get_queryset_def sample_store_def
          sample_product_def)
  show "(0::int) < 3" by simp
  show "distinct (map id_pk (orderitems sample_store))"
    by (simp add: sample_store_def)
  show "length (filter (cart_key 5 (id_pk sample_product)) (orderitems sample_store)) \<le> 1"
    by (simp add: sample_store_def)
  show "20 \<notin> id_pk ` set (orderitems sample_store)"
    by (simp add: sample_store_def sample_item_def)
qed

text \<open>
  Claim C5 as stated fails where it says that the second call changes nothing: user 1
  sets the quantity of the sample cart row to 4 at time 8 and again at time 9; the row is
  saved both times, and its \<open>updated_at\<close> is 8 after the first call and 9 after the second.
\<close>

theorem toggle_twice_changes_updated_at:
  "orderitems (snd (CartView_post BaseModel 1 ''mug'' 4 20 8 sample_store))
     = [sample_item\<lparr>updated_at := 8\<rparr>]
   \<and> orderitems (snd (CartView_post BaseModel 1 ''mug'' 4 21 9
                        (snd (CartView_post BaseModel 1 ''mug'' 4 20 8 sample_store))))
     = [sample_item\<lparr>updated_at := 9\<rparr>]
   \<and> sample_item\<lparr>updated_at := 9\<rparr> \<noteq> sample_item\<lparr>updated_at := 8\<rparr>"
  by (simp add: CartView_post_def CartView_post_upsert_def CartView_post_respond_def
        get_or_none_def get_def update_or_create_def qs_filter_def get_queryset_def
        cart_key_def OrderItem_kind_def sample_store_def sample_product_def sample_item_def
        Let_def)

text \<open>
  Claim C2, as the code has it. Let the product resolve and the quantity be 0. If the cart
  holds a row for the key, the call answers "Item Removed From Cart" with no item (status
  200) and the row is gone from the table itself, all other rows being as before. If the
  cart holds no row for the key and the key drawn is free, the upsert first inserts a row
  with quantity 0 (\<open>created\<close> is true), and the same call then deletes that row: the store
  after the call is the store before it, and the answer is "Item Removed From Cart" with
  no item, under status 201.
\<close>

theorem toggle_zero_removes:
  assumes prod: "get_or_none pk (\<lambda>p. slug p = s) (products st) = Inr (Some p)"
  shows "(\<forall>i0. filter (cart_key u (id_pk p)) (orderitems st) = [i0] \<longrightarrow>
            CartView_post pk u s 0 new_id now st
              = (Inr (Response (Some ''Item Removed From Cart'') None 200),
                 st\<lparr>orderitems := filter (\<lambda>i. id_pk i \<noteq> id_pk i0) (orderitems st)\<rparr>))
       \<and> (filter (cart_key u (id_pk p)) (orderitems st) = []
            \<and> new_id \<notin> id_pk ` set (orderitems st) \<longrightarrow>
            CartView_post pk u s 0 new_id now st
              = (Inr (Response (Some ''Item Removed From Cart'') None 201), st)
            \<and> (\<exists>i. CartView_post_upsert pk u s 0 new_id now st
                       = Inr (Some ((i, True), st\<lparr>orderitems := orderitems st @ [i]\<rparr>))
                   \<and> id_pk i = new_id \<and> quantity i = 0))"
proof -
  have present: "CartView_post pk u s 0 new_id now st
              = (Inr (Response (Some ''Item Removed From Cart'') None 200),
                 st\<lparr>orderitems := filter (\<lambda>i. id_pk i \<noteq> id_pk i0) (orderitems st)\<rparr>)"
    if one: "filter (cart_key u (id_pk p)) (orderitems st) = [i0]" for i0
  proof -
  let ?i1 = "i0\<lparr>quantity := 0, updated_at := now\<rparr>"
  have z: "quantity ?i1 = 0" by simp
  have "filter (\<lambda>r. id_pk r \<noteq> id_pk i0)
          (map (\<lambda>r. if id_pk r = id_pk i0 then ?i1 else r) (orderitems st))
        = filter (\<lambda>r. id_pk r \<noteq> id_pk i0) (orderitems st)"
    by (rule delete_replaced) simp
  then show ?thesis
    by (simp add: CartView_post_def upsert_present[OF prod one] respond_zero[OF z])
  qed
  have absent: "CartView_post pk u s 0 new_id now st
              = (Inr (Response (Some ''Item Removed From Cart'') None 201), st)
            \<and> (\<exists>i. CartView_post_upsert pk u s 0 new_id now st
                       = Inr (Some ((i, True), st\<lparr>orderitems := orderitems st @ [i]\<rparr>))
                   \<and> id_pk i = new_id \<and> quantity i = 0)"
    if none: "filter (cart_key u (id_pk p)) (orderitems st) = []"
      and fresh: "new_id \<notin> id_pk ` set (orderitems st)"
  proof -
  let ?new = "\<lparr>id_pk = new_id, created_at = now, updated_at = now,
                    is_deleted = False, deleted_at = None,
                    OrderItem.user = u, order_id = None, OrderItem.product = id_pk p,
                    quantity = 0\<rparr>"
  have up: "CartView_post_upsert pk u s 0 new_id now st
              = Inr (Some ((?new, True), st\<lparr>orderitems := orderitems st @ [?new]\<rparr>))"
    by (rule upsert_absent[OF prod none fresh])
  have z: "quantity ?new = 0" by simp
  have fresh': "id_pk ?new \<notin> id_pk ` set (orderitems st)" using fresh by simp
  have del: "filter (\<lambda>r. id_pk r \<noteq> id_pk ?new) (orderitems st @ [?new]) = orderitems st"
    by (rule delete_appended[OF fresh'])
  have post: "CartView_post pk u s 0 new_id now st
              = (Inr (Response (Some ''Item Removed From Cart'') None 201), st)"
    using del by (simp add: CartView_post_def up respond_zero[OF z])
  have "\<exists>i. CartView_post_upsert pk u s 0 new_id now st
                       = Inr (Some ((i, True), st\<lparr>orderitems := orderitems st @ [i]\<rparr>))
                   \<and> id_pk i = new_id \<and> quantity i = 0"
    using up by (intro exI[of _ ?new]) simp
  with post show ?thesis by blast
  qed
  from present absent show ?thesis by blast
qed

text \<open>
  The theorem at the sample store: user 1 removes the mug that is in the cart, and user 5
  removes a mug that is not.
\<close>

theorem toggle_zero_removes_witness:
  "CartView_post BaseModel 1 ''mug'' 0 20 8 sample_store
     = (Inr (Response (Some ''Item Removed From Cart'') None 200),
        sample_store\<lparr>orderitems := []\<rparr>)
   \<and> CartView_post BaseModel 5 ''mug'' 0 20 8 sample_store
     = (Inr (Response (Some ''Item Removed From Cart'') None 201), sample_store)"
proof -
  have prod: "get_or_none BaseModel (\<lambda>p. slug p = ''mug'') (products sample_store)
          = Inr (Some sample_product)"
    by (simp add: get_or_none_def get_def qs_filter_def get_queryset_def sample_store_def
          sample_product_def)
  have one: "filter (cart_key 1 (id_pk sample_product)) (orderitems sample_store) = [sample_item]"
    by (simp add: sample_store_def sample_product_def sample_item_def cart_key_def)
  have none: "filter (cart_key 5 (id_pk sample_product)) (orderitems sample_store) = []
              \<and> 20 \<notin> id_pk ` set (orderitems sample_store)"
    by (simp add: sample_store_def sample_product_def sample_item_def cart_key_def)
  have gone: "filter (\<lambda>i. id_pk i \<noteq> id_pk sample_item) (orderitems sample_store) = []"
    by (simp add: sample_store_def)
  from toggle_zero_removes[OF prod, of 1 20 8] one gone
  have a: "CartView_post BaseModel 1 ''mug'' 0 20 8 sample_store
     = (Inr (Response (Some ''Item Removed From Cart'') None 200),
        sample_store\<lparr>orderitems := []\<rparr>)"
    by simp
  from toggle_zero_removes[OF prod, of 5 20 8] none
  have b: "CartView_post BaseModel 5 ''mug'' 0 20 8 sample_store
     = (Inr (Response (Some ''Item Removed From Cart'') None 201), sample_store)"
    by blast
  from a b show ?thesis by blast
qed

text \<open>
  Claim C2 as stated fails where it says that no row is ever created: user 5 has no mug in
  the cart and asks for quantity 0; the upsert inserts a cart row with quantity 0 and
  reports it as created, and the response carries the status 201 of a creation.
\<close>

theorem toggle_zero_creates_row:
  "CartView_post_upsert BaseModel 5 ''mug'' 0 20 8 sample_store
     = Inr (Some ((\<lparr>id_pk = 20, created_at = 8, updated_at = 8,
                     is_deleted = False, deleted_at = None,
                     OrderItem.user = 5, order_id = None, OrderItem.product = 2,
                     quantity = 0\<rparr>, True),
                  sample_store\<lparr>orderitems :=
                     [sample_item,
                      \<lparr>id_pk = 20, created_at = 8, updated_at = 8,
                        is_deleted = False, deleted_at = None,
                        OrderItem.user = 5, order_id = None, OrderItem.product = 2,
                        quantity = 0\<rparr>]\<rparr>))
   \<and> fst (CartView_post BaseModel 5 ''mug'' 0 20 8 sample_store)
     = Inr (Response (Some ''Item Removed From Cart'') None 201)"
  by (simp add: CartView_post_def CartView_post_upsert_def CartView_post_respond_def
        get_or_none_def get_def update_or_create_def create_def insert_row_def qs_filter_def
        get_queryset_def cart_key_def OrderItem_kind_def instance_delete_def Model_delete_def
        sample_store_def sample_product_def sample_item_def Let_def)

end
